theory Spec2Isabelle
  imports Main "HOL-Library.AList"
begin

section \<open>Python values shared by both modules\<close>

text \<open>What a shell command or an argument vector asks the operating system to run.\<close>

datatype argv = Shell string | Args "string list"

text \<open>
  Exceptions are values. \<open>KeyboardInterrupt\<close> stands for the exceptions that derive from
  \<open>BaseException\<close> only (a clause \<open>except Exception\<close> does not catch them); every other
  constructor is a subclass of \<open>Exception\<close>. \<open>KeyError\<close> carries the missing key,
  \<open>TimeoutExpired\<close> the command and the timeout, \<open>CalledProcessError\<close> the exit status,
  the command and the captured stderr, the others their message.
\<close>

datatype exn =
    KeyError string
  | AttributeError string
  | TypeError string
  | FileNotFoundError string
  | TimeoutError string
  | TimeoutExpired argv int
  | CalledProcessError int argv string
  | KeyboardInterrupt
  | Exception string


text \<open>What a call does: it returns a value, raises, or never comes back.\<close>

datatype 'a outcome = Returns 'a | Raises exn | Diverges

text \<open>The values \<open>json.loads\<close> produces and \<open>json.dumps\<close> consumes (numbers with a
  fraction are left out).\<close>

datatype json =
    JNull
  | JBool bool
  | JInt int
  | JString string
  | JArray "json list"
  | JObject "(string \<times> json) list"

text \<open>Python's truth value of such a value (\<open>not x\<close> is its negation).\<close>

fun truthy :: "json \<Rightarrow> bool" where
  "truthy JNull = False"
| "truthy (JBool b) = b"
| "truthy (JInt i) = (i \<noteq> 0)"
| "truthy (JString s) = (s \<noteq> [])"
| "truthy (JArray xs) = (xs \<noteq> [])"
| "truthy (JObject kvs) = (kvs \<noteq> [])"

text \<open>
  Everything a call does besides returning, in the order it happens: records handed to
  the log sink, lines printed, child processes started and killed, calls into the
  collaborators. The pictograph that opens a \<open>logger.info\<close> or \<open>logger.debug\<close> message in
  the source is left out of the message.
\<close>

datatype effect =
    LogOperation string string string
  | LogError string exn
  | LoggerInfo string
  | LoggerDebug string
  | Print string
  | Sleep int
  | Spawn argv "string option"
  | Kill argv
  | AnalyzePath string
  | AnalyzeError json

text \<open>
  Modelled from the spec: \<open>core.logger.log_operation\<close> and \<open>log_error\<close> are not among the
  source files. The spec describes the log as an append-only sink of operation records
  (name, status, detail); a call appends one record and returns.
\<close>

definition log_operation :: "string \<Rightarrow> string \<Rightarrow> string \<Rightarrow> effect list" where
  "log_operation name st detail = [LogOperation name st detail]"

definition log_error :: "string \<Rightarrow> exn \<Rightarrow> effect list" where
  "log_error name e = [LogError name e]"

subsection \<open>Formatting integers\<close>

definition digit :: "nat \<Rightarrow> char" where
  "digit d = ''0123456789'' ! d"

fun str_nat :: "nat \<Rightarrow> string" where
  "str_nat n = (if n < 10 then [digit n] else str_nat (n div 10) @ [digit (n mod 10)])"

declare str_nat.simps [simp del]

text \<open>\<open>str(i)\<close> and \<open>f"{i}"\<close> for an integer.\<close>

definition str_int :: "int \<Rightarrow> string" where
  "str_int i = (if i < 0 then CHR ''-'' # str_nat (nat (- i)) else str_nat (nat i))"

text \<open>\<open>repr(s)\<close> of a string without quotes, backslashes or control characters, and
  \<open>sep.join(xs)\<close>.\<close>

definition repr :: "string \<Rightarrow> string" where
  "repr s = [CHR 0x27] @ s @ [CHR 0x27]"





text \<open>\<open>divmod(a, b)\<close> on integers, for a divisor that is not zero (the module divides by
  3600 and by 60): floor division and the remainder with the sign of \<open>b\<close>.\<close>

definition divmod :: "int \<Rightarrow> int \<Rightarrow> int \<times> int" where
  "divmod a b = (a div b, a mod b)"

section \<open>main.py: the bot\<close>

text \<open>
  The module constants read from the environment, and the two renderings of a
  \<open>datetime\<close> the module uses. A \<open>datetime\<close> is a number of microseconds on the time
  line; a \<open>timedelta\<close> is a difference of two.
\<close>

record env =
  BOT_NAME :: string
  HEALTH_CHECK_INTERVAL :: int
  str_datetime :: "int \<Rightarrow> string"
  isoformat :: "int \<Rightarrow> string"

record bot =
  running :: bool
  start_time :: "int option"
  task_count :: int
  status :: string

text \<open>\<open>AtenaBot.__init__\<close>\<close>

definition AtenaBot_init :: bot where
  "AtenaBot_init = \<lparr>running = False, start_time = None, task_count = 0,
     status = ''initialized''\<rparr>"

text \<open>\<open>AtenaBot.start\<close>; \<open>now\<close> is what \<open>datetime.now()\<close> returns.\<close>

definition start :: "env \<Rightarrow> int \<Rightarrow> bot \<Rightarrow> bot \<times> effect list \<times> unit outcome" where
  "start ev now b =
     (b\<lparr>running := True, start_time := Some now, status := ''running''\<rparr>,
      log_operation ''bot_start'' ''SUCCESS''
          (BOT_NAME ev @ '' started at '' @ str_datetime ev now)
        @ [LoggerInfo (BOT_NAME ev @ '' Bot started successfully'')],
      Returns ())"

text \<open>\<open>AtenaBot.stop\<close>\<close>

definition stop :: "env \<Rightarrow> bot \<Rightarrow> bot \<times> effect list \<times> unit outcome" where
  "stop ev b =
     (b\<lparr>running := False, status := ''stopped''\<rparr>,
      log_operation ''bot_stop'' ''SUCCESS'' (BOT_NAME ev @ '' stopped'')
        @ [LoggerInfo (BOT_NAME ev @ '' Bot stopped'')],
      Returns ())"

text \<open>
  \<open>int(delta.total_seconds())\<close>: the whole seconds of a \<open>timedelta\<close>, cut towards zero.
  \<open>total_seconds()\<close> is taken as the exact quotient by \<open>10^6\<close>; the float Python computes
  has the same whole part for every span shorter than \<open>2^34\<close> seconds (about 544 years).
\<close>

definition whole_seconds :: "int \<Rightarrow> int" where
  "whole_seconds delta =
     (if 0 \<le> delta then delta div 1000000 else - ((- delta) div 1000000))"

text \<open>\<open>AtenaBot.get_uptime\<close>; a \<open>datetime\<close> is always true, so \<open>not self.start_time\<close> holds
  exactly for \<open>None\<close>.\<close>

definition get_uptime :: "bot \<Rightarrow> int \<Rightarrow> string" where
  "get_uptime b now =
     (case start_time b of
        None \<Rightarrow> ''Not started''
      | Some st \<Rightarrow>
          (let delta = now - st;
               (hours, remainder) = divmod (whole_seconds delta) 3600;
               (minutes, seconds) = divmod remainder 60
           in str_int hours @ ''h '' @ str_int minutes @ ''m '' @ str_int seconds @ ''s''))"

text \<open>\<open>AtenaBot.get_status\<close>; the clock is read twice, once inside \<open>get_uptime\<close>.\<close>

definition get_status :: "env \<Rightarrow> bot \<Rightarrow> int \<Rightarrow> int \<Rightarrow> json" where
  "get_status ev b now1 now2 =
     JObject [
       (''name'', JString (BOT_NAME ev)),
       (''status'', JString (status b)),
       (''uptime'', JString (get_uptime b now1)),
       (''tasks_processed'', JInt (task_count b)),
       (''start_time'', (case start_time b of None \<Rightarrow> JNull | Some st \<Rightarrow> JString (isoformat ev st))),
       (''current_time'', JString (isoformat ev now2)),
       (''version'', JString ''1.0.0'')]"

subsection \<open>Analysis and error help\<close>

text \<open>
  What the analysis collaborator returns: one result per file, each with its issues; an
  issue carries a severity tag. The other attributes are not read by this module.
\<close>

record issue =
  severity :: string

record file_result =
  issues :: "issue list"

record summary =
  files_analyzed :: int
  total_issues :: int
  issues_by_severity :: "(string \<times> int) list"

text \<open>\<open>d[k] += 1\<close> on a dictionary kept as its items in insertion order: the lookup
  raises \<open>KeyError\<close> for a key that is not there.\<close>

definition increment :: "(string \<times> int) list \<Rightarrow> string \<Rightarrow> (string \<times> int) list outcome" where
  "increment d k =
     (case map_of d k of
        None \<Rightarrow> Raises (KeyError k)
      | Some v \<Rightarrow> Returns (AList.update k (v + 1) d))"

text \<open>The inner loop, \<open>for issue in result.issues\<close>.\<close>

fun count_issues :: "(string \<times> int) list \<Rightarrow> issue list \<Rightarrow> (string \<times> int) list outcome" where
  "count_issues d [] = Returns d"
| "count_issues d (i # rest) =
     (case increment d (severity i) of
        Returns d' \<Rightarrow> count_issues d' rest
      | Raises e \<Rightarrow> Raises e
      | Diverges \<Rightarrow> Diverges)"

text \<open>The outer loop, \<open>for result in results\<close>.\<close>

fun count_results :: "(string \<times> int) list \<Rightarrow> file_result list \<Rightarrow> (string \<times> int) list outcome" where
  "count_results d [] = Returns d"
| "count_results d (r # rest) =
     (case count_issues d (issues r) of
        Returns d' \<Rightarrow> count_results d' rest
      | Raises e \<Rightarrow> Raises e
      | Diverges \<Rightarrow> Diverges)"

text \<open>\<open>AtenaBot.analyze_project\<close>; \<open>analyzer\<close> is \<open>self.analyzer.analyze_path\<close>.\<close>

definition analyze_project ::
    "(string \<Rightarrow> file_result list outcome) \<Rightarrow> bot \<Rightarrow> string \<Rightarrow> bot \<times> effect list \<times> summary outcome" where
  "analyze_project analyzer b path =
     (let b' = b\<lparr>task_count := task_count b + 1\<rparr>;
          started = log_operation ''analyze_project'' ''STARTED'' path @ [AnalyzePath path]
      in case analyzer path of
           Raises e \<Rightarrow> (b', started, Raises e)
         | Diverges \<Rightarrow> (b', started, Diverges)
         | Returns results \<Rightarrow>
             (let total = sum_list (map (\<lambda>r. int (length (issues r))) results)
              in case count_results [(''HIGH'', 0), (''MEDIUM'', 0), (''LOW'', 0)] results of
                   Raises e \<Rightarrow> (b', started, Raises e)
                 | Diverges \<Rightarrow> (b', started, Diverges)
                 | Returns by_severity \<Rightarrow>
                     (b',
                      started @ log_operation ''analyze_project'' ''COMPLETED''
                                  (str_int total @ '' issues found''),
                      Returns \<lparr>files_analyzed = int (length results), total_issues = total,
                               issues_by_severity = by_severity\<rparr>)))"

text \<open>\<open>AtenaBot.get_error_help\<close>; \<open>doc_assistant\<close> is \<open>self.doc_assistant.analyze_error\<close>.\<close>

definition get_error_help ::
    "(json \<Rightarrow> json outcome) \<Rightarrow> bot \<Rightarrow> json \<Rightarrow> bot \<times> effect list \<times> json outcome" where
  "get_error_help doc_assistant b error_message =
     (b\<lparr>task_count := task_count b + 1\<rparr>,
      [AnalyzeError error_message],
      doc_assistant error_message)"

text \<open>
  \<open>AtenaBot.heartbeat\<close> runs in a thread of its own: \<open>while self.running\<close> reads the bot
  afresh at every round. One round is the test and, when it holds, the body; the flag
  returned says whether the loop goes on. The round leaves the bot as it found it.
\<close>

definition heartbeat_round :: "env \<Rightarrow> bot \<Rightarrow> int \<Rightarrow> effect list \<times> bool" where
  "heartbeat_round ev b now =
     (if running b
      then ([LoggerDebug (''Heartbeat - Uptime: '' @ get_uptime b now),
             Sleep (HEALTH_CHECK_INTERVAL ev)], True)
      else ([], False))"

subsection \<open>Sequences of calls on one bot\<close>

datatype lifecycle_call = Start int | Stop

datatype call =
    Lifecycle lifecycle_call
  | GetUptime int
  | GetStatus int int
  | AnalyzeProject "string \<Rightarrow> file_result list outcome" string
  | GetErrorHelp "json \<Rightarrow> json outcome" json
  | HeartbeatRound int

text \<open>One call: the bot it leaves, what it did, and whether it came back (returned or
  raised) rather than hanging in a collaborator.\<close>

fun came_back :: "'a outcome \<Rightarrow> bool" where
  "came_back Diverges = False"
| "came_back _ = True"

fun perform :: "env \<Rightarrow> bot \<Rightarrow> call \<Rightarrow> bot \<times> effect list \<times> bool" where
  "perform ev b (Lifecycle (Start now)) =
     (case start ev now b of (b', es, r) \<Rightarrow> (b', es, came_back r))"
| "perform ev b (Lifecycle Stop) =
     (case stop ev b of (b', es, r) \<Rightarrow> (b', es, came_back r))"
| "perform ev b (GetUptime now) = (b, [], True)"
| "perform ev b (GetStatus now1 now2) = (b, [], True)"
| "perform ev b (AnalyzeProject analyzer path) =
     (case analyze_project analyzer b path of (b', es, r) \<Rightarrow> (b', es, came_back r))"
| "perform ev b (GetErrorHelp doc_assistant msg) =
     (case get_error_help doc_assistant b msg of (b', es, r) \<Rightarrow> (b', es, came_back r))"
| "perform ev b (HeartbeatRound now) = (b, fst (heartbeat_round ev b now), True)"

text \<open>The calls of a sequence run one after the other on the same bot; a call that never
  comes back is the last one to run.\<close>

fun run_calls :: "env \<Rightarrow> bot \<Rightarrow> call list \<Rightarrow> bot \<times> effect list" where
  "run_calls ev b [] = (b, [])"
| "run_calls ev b (c # cs) =
     (case perform ev b c of
        (b', es, back) \<Rightarrow>
          if back then (case run_calls ev b' cs of (b'', es') \<Rightarrow> (b'', es @ es'))
          else (b', es))"

text \<open>The spec's words: the status implied by the last call of a sequence of
  \<open>start()\<close> and \<open>stop()\<close> calls, \<open>initialized\<close> for the empty sequence.\<close>

definition implied_status :: "lifecycle_call list \<Rightarrow> string" where
  "implied_status cs =
     (if cs = [] then ''initialized''
      else (case last cs of Start now \<Rightarrow> ''running'' | Stop \<Rightarrow> ''stopped''))"

fun is_task :: "call \<Rightarrow> bool" where
  "is_task (AnalyzeProject analyzer path) = True"
| "is_task (GetErrorHelp doc_assistant msg) = True"
| "is_task _ = False"

text \<open>A call returns or raises: its collaborator, if it has one, does not hang.\<close>

fun returns_or_raises :: "call \<Rightarrow> bool" where
  "returns_or_raises (AnalyzeProject analyzer path) = came_back (analyzer path)"
| "returns_or_raises (GetErrorHelp doc_assistant msg) = came_back (doc_assistant msg)"
| "returns_or_raises _ = True"

fun is_start :: "call \<Rightarrow> bool" where
  "is_start (Lifecycle (Start now)) = True"
| "is_start _ = False"

subsection \<open>The HTTP handler\<close>

text \<open>
  What \<open>HealthHandler\<close> reads of a request: \<open>self.path\<close>, the integer value of the
  \<open>Content-Length\<close> header (0 when the header is absent), and the text that \<open>self.rfile\<close>
  delivers.
\<close>

record handler =
  path :: string
  content_length :: int
  rfile :: string

record response =
  status_code :: int
  headers :: "(string \<times> string) list"
  payload :: json

text \<open>\<open>HealthHandler._send_json\<close>; the payload is kept as the value that \<open>json.dumps\<close>
  renders.\<close>

definition send_json :: "json \<Rightarrow> int \<Rightarrow> response" where
  "send_json data st =
     \<lparr>status_code = st,
      headers = [(''Content-Type'', ''application/json''),
                 (''Access-Control-Allow-Origin'', ''*'')],
      payload = data\<rparr>"

text \<open>The dictionary \<open>analyze_project\<close> returns, as a JSON value.\<close>

definition summary_json :: "summary \<Rightarrow> json" where
  "summary_json s =
     JObject [
       (''files_analyzed'', JInt (files_analyzed s)),
       (''total_issues'', JInt (total_issues s)),
       (''issues_by_severity'', JObject (map (\<lambda>(k, v). (k, JInt v)) (issues_by_severity s)))]"

text \<open>\<open>result = bot.f(...); self._send_json(result)\<close>: the reply is sent once the call has
  returned; if it raises, nothing is sent.\<close>

fun reply :: "('a \<Rightarrow> json) \<Rightarrow> bot \<times> effect list \<times> 'a outcome \<Rightarrow> bot \<times> effect list \<times> response outcome" where
  "reply to_json (b, es, Returns v) = (b, es, Returns (send_json (to_json v) 200))"
| "reply to_json (b, es, Raises e) = (b, es, Raises e)"
| "reply to_json (b, es, Diverges) = (b, es, Diverges)"

text \<open>\<open>text.split("\n")\<close>: the pieces between the newlines, one more than there are
  newlines.\<close>

fun split_newline :: "string \<Rightarrow> string list" where
  "split_newline [] = [[]]"
| "split_newline (c # cs) =
     (if c = CHR 0x0A then [] # split_newline cs
      else (c # hd (split_newline cs)) # tl (split_newline cs))"

text \<open>\<open>xs[-50:]\<close>\<close>

definition last_50 :: "'a list \<Rightarrow> 'a list" where
  "last_50 xs = drop (length xs - 50) xs"

text \<open>\<open>HealthHandler.do_GET\<close>. \<open>log_file\<close> is the text of \<open>LOGS_DIR / "atena.log"\<close>, or
  \<open>None\<close> when the file does not exist.\<close>

definition do_GET ::
    "env \<Rightarrow> (string \<Rightarrow> file_result list outcome) \<Rightarrow> string option \<Rightarrow> int \<Rightarrow> int \<Rightarrow> bot \<Rightarrow> handler
       \<Rightarrow> bot \<times> effect list \<times> response outcome" where
  "do_GET ev analyzer log_file now1 now2 b h =
     (if path h = ''/'' \<or> path h = ''/health'' then
        (b, [], Returns (send_json
           (JObject [(''status'', JString ''healthy''), (''bot'', get_status ev b now1 now2)]) 200))
      else if path h = ''/status'' then
        (b, [], Returns (send_json (get_status ev b now1 now2) 200))
      else if path h = ''/analyze'' then
        reply summary_json (analyze_project analyzer b ''.'')
      else if take 9 (path h) = ''/analyze/'' then
        reply summary_json (analyze_project analyzer b (drop 9 (path h)))
      else if path h = ''/logs'' then
        (case log_file of
           Some text \<Rightarrow>
             (b, [], Returns (send_json
                (JObject [(''logs'', JArray (map JString (last_50 (split_newline text))))]) 200))
         | None \<Rightarrow> (b, [], Returns (send_json (JObject [(''logs'', JArray [])]) 200)))
      else (b, [], Returns (send_json (JObject [(''error'', JString ''Not found'')]) 404)))"

text \<open>The name of a value's type, as it stands in an \<open>AttributeError\<close>.\<close>

fun type_name :: "json \<Rightarrow> string" where
  "type_name JNull = ''NoneType''"
| "type_name (JBool b) = ''bool''"
| "type_name (JInt i) = ''int''"
| "type_name (JString s) = ''str''"
| "type_name (JArray xs) = ''list''"
| "type_name (JObject kvs) = ''dict''"

text \<open>\<open>data.get(key, default)\<close>: only a dictionary has the method. \<open>JObject\<close> holds the
  items of the dictionary, every key once.\<close>

fun dict_get :: "json \<Rightarrow> string \<Rightarrow> json \<Rightarrow> json outcome" where
  "dict_get (JObject kvs) k d = Returns (case map_of kvs k of None \<Rightarrow> d | Some v \<Rightarrow> v)"
| "dict_get v k d =
     Raises (AttributeError (repr (type_name v) @ '' object has no attribute '' @ repr ''get''))"

text \<open>
  \<open>HealthHandler.do_POST\<close>. \<open>json_loads\<close> is the library's parser, \<open>None\<close> standing for
  \<open>JSONDecodeError\<close>. In the \<open>/analyze\<close> branch a \<open>path\<close> that is not a string is outside
  what \<open>analyze_project\<close> declares (\<open>path: str\<close>) and what the logger and the analyzer do
  with it is not in the source: there the model stops with a \<open>TypeError\<close>.
\<close>

definition do_POST ::
    "(string \<Rightarrow> json option) \<Rightarrow> (string \<Rightarrow> file_result list outcome) \<Rightarrow> (json \<Rightarrow> json outcome)
       \<Rightarrow> bot \<Rightarrow> handler \<Rightarrow> bot \<times> effect list \<times> response outcome" where
  "do_POST json_loads analyzer doc_assistant b h =
     (let body = (if content_length h > 0 then take (nat (content_length h)) (rfile h)
                  else ''{}'')
      in case (if body \<noteq> [] then json_loads body else Some (JObject [])) of
           None \<Rightarrow> (b, [], Returns (send_json (JObject [(''error'', JString ''Invalid JSON'')]) 400))
         | Some data \<Rightarrow>
             if path h = ''/error-help'' then
               (case dict_get data ''error'' (JString []) of
                  Returns error_msg \<Rightarrow>
                    if \<not> truthy error_msg then
                      (b, [], Returns (send_json
                         (JObject [(''error'', JString (''Missing '' @ repr ''error'' @ '' field''))])
                         400))
                    else reply (\<lambda>v. v) (get_error_help doc_assistant b error_msg)
                | Raises e \<Rightarrow> (b, [], Raises e)
                | Diverges \<Rightarrow> (b, [], Diverges))
             else if path h = ''/analyze'' then
               (case dict_get data ''path'' (JString ''.'') of
                  Returns (JString p) \<Rightarrow> reply summary_json (analyze_project analyzer b p)
                | Returns v \<Rightarrow> (b, [], Raises (TypeError (type_name v)))
                | Raises e \<Rightarrow> (b, [], Raises e)
                | Diverges \<Rightarrow> (b, [], Diverges))
             else (b, [], Returns (send_json (JObject [(''error'', JString ''Not found'')]) 404)))"

section \<open>manager.py: dependencies and commands\<close>

text \<open>
  What a child process does once started: it exits on its own after some time (in
  microseconds) with an exit status and its two output streams, or it never exits unless
  killed. A child may also fail to start, with the exception \<open>Popen\<close> raises, or the user
  may interrupt the wait for it.
\<close>

datatype behaviour =
    Exits nat int string string
  | Hangs
  | SpawnFails exn
  | Interrupted

record completed =
  returncode :: int
  stdout :: string
  stderr :: string

text \<open>
  The standard library's \<open>subprocess.run(cmd, cwd=..., capture_output=True, text=True,
  timeout=..., check=...)\<close>, after its documentation: when the timeout (in seconds)
  expires the child is killed and waited for, and \<open>TimeoutExpired\<close> is raised; any other
  exception during the wait also kills the child; with \<open>check\<close> a non-zero exit status
  raises \<open>CalledProcessError\<close>. \<open>process\<close> says what the child started for a command does.
\<close>

definition subprocess_run ::
    "(argv \<Rightarrow> behaviour) \<Rightarrow> argv \<Rightarrow> string option \<Rightarrow> int option \<Rightarrow> bool
       \<Rightarrow> effect list \<times> completed outcome" where
  "subprocess_run process cmd cwd timeout check =
     (case process cmd of
        SpawnFails e \<Rightarrow> ([], Raises e)
      | Interrupted \<Rightarrow> ([Spawn cmd cwd, Kill cmd], Raises KeyboardInterrupt)
      | Hangs \<Rightarrow>
          (case timeout of
             None \<Rightarrow> ([Spawn cmd cwd], Diverges)
           | Some t \<Rightarrow> ([Spawn cmd cwd, Kill cmd], Raises (TimeoutExpired cmd t)))
      | Exits d rc out err \<Rightarrow>
          (case timeout of
             None \<Rightarrow>
               if check \<and> rc \<noteq> 0 then ([Spawn cmd cwd], Raises (CalledProcessError rc cmd err))
               else ([Spawn cmd cwd], Returns \<lparr>returncode = rc, stdout = out, stderr = err\<rparr>)
           | Some t \<Rightarrow>
               if t * 1000000 < int d
               then ([Spawn cmd cwd, Kill cmd], Raises (TimeoutExpired cmd t))
               else if check \<and> rc \<noteq> 0
               then ([Spawn cmd cwd], Raises (CalledProcessError rc cmd err))
               else ([Spawn cmd cwd], Returns \<lparr>returncode = rc, stdout = out, stderr = err\<rparr>)))"

text \<open>What the two classes read of their surroundings: the file system, \<open>sys.executable\<close>,
  \<open>BASE_DIR\<close>, and the behaviour of the processes they start.\<close>

record system =
  path_exists :: "string \<Rightarrow> bool"
  executable :: string
  base_dir :: string
  process :: "argv \<Rightarrow> behaviour"


text \<open>\<open>DependencyManager.install_package\<close>\<close>

definition install_package :: "system \<Rightarrow> string \<Rightarrow> effect list \<times> bool outcome" where
  "install_package sys package =
     (let cmd = [executable sys, ''-m'', ''pip'', ''install'', package];
          started = log_operation ''install_package'' ''STARTED'' package
      in case subprocess_run (process sys) (Args cmd) None None True of
           (es, Returns result) \<Rightarrow>
             (started @ es @ log_operation ''install_package'' ''SUCCESS'' package, Returns True)
         | (es, Raises (CalledProcessError rc c err)) \<Rightarrow>
             (started @ es @ log_error ''install_package'' (CalledProcessError rc c err),
              Returns False)
         | (es, Raises e) \<Rightarrow> (started @ es, Raises e)
         | (es, Diverges) \<Rightarrow> (started @ es, Diverges))"



section \<open>Concrete inputs\<close>

definition example_env :: env where
  "example_env = \<lparr>BOT_NAME = ''ATENA'', HEALTH_CHECK_INTERVAL = 60,
     str_datetime = str_int, isoformat = str_int\<rparr>"


text \<open>A log file as a logging handler writes it, every record followed by a newline; and
  the records \<open>record 1\<close>, ..., \<open>record n\<close>.\<close>

definition newline_terminated :: "string list \<Rightarrow> string" where
  "newline_terminated ls = concat (map (\<lambda>l. l @ [CHR 0x0A]) ls)"

definition numbered_lines :: "nat \<Rightarrow> string list" where
  "numbered_lines n = map (\<lambda>k. ''record '' @ str_nat k) [1..<Suc n]"

text \<open>Analysis results with the given severities, one list per file.\<close>

definition results_with :: "string list list \<Rightarrow> file_result list" where
  "results_with sevs = map (\<lambda>ss. \<lparr>issues = map (\<lambda>s. \<lparr>severity = s\<rparr>) ss\<rparr>) sevs"

section \<open>Properties of the bot\<close>

subsection \<open>Helper lemmas\<close>

lemma perform_Start:
  "perform ev b (Lifecycle (Start now)) =
     (b\<lparr>running := True, start_time := Some now, status := ''running''\<rparr>,
      fst (snd (start ev now b)), True)"
  by (simp add: start_def)

lemma perform_Stop:
  "perform ev b (Lifecycle Stop) =
     (b\<lparr>running := False, status := ''stopped''\<rparr>, fst (snd (stop ev b)), True)"
  by (simp add: stop_def)

lemma status_run_lifecycle:
  "status (fst (run_calls ev b (map Lifecycle cs))) =
     (if cs = [] then status b else implied_status cs)"
proof (induction cs arbitrary: b)
  case Nil
  show ?case by simp
next
  case (Cons c cs)
  show ?case
    by (cases c)
       (simp_all add: Cons.IH implied_status_def perform_Start perform_Stop case_prod_unfold
          del: perform.simps)
qed

lemma increment_comes_back: "increment d k \<noteq> Diverges"
  by (simp add: increment_def split: option.splits)

lemma count_issues_comes_back: "count_issues d xs \<noteq> Diverges"
  by (induction xs arbitrary: d) (auto simp: increment_comes_back split: outcome.splits)

lemma count_results_comes_back: "count_results d rs \<noteq> Diverges"
  by (induction rs arbitrary: d) (auto simp: count_issues_comes_back split: outcome.splits)

lemma perform_task_count:
  "returns_or_raises c \<Longrightarrow> perform ev b c = (b', es, bk) \<Longrightarrow>
     bk \<and> task_count b' = task_count b + (if is_task c then 1 else 0)"
  by (cases c rule: is_start.cases)
     (auto simp: start_def stop_def analyze_project_def get_error_help_def Let_def
             count_results_comes_back
           split: outcome.splits)






subsection \<open>Lifecycle\<close>

text \<open>
  C1. After any finite sequence of \<open>start()\<close> and \<open>stop()\<close> calls on a fresh bot, the status
  is the one the last call implies (\<open>running\<close> after \<open>start\<close>, \<open>stopped\<close> after \<open>stop\<close>), and
  \<open>initialized\<close> after the empty sequence. On any bot whatever, so also on one that is
  already running or already stopped, \<open>start()\<close> and \<open>stop()\<close> return without raising and
  leave the status they imply.
\<close>

theorem status_after_lifecycle_calls:
  "status (fst (run_calls ev AtenaBot_init (map Lifecycle cs))) = implied_status cs
   \<and> status (fst (start ev now b)) = ''running'' \<and> snd (snd (start ev now b)) = Returns ()
   \<and> status (fst (stop ev b)) = ''stopped'' \<and> snd (snd (stop ev b)) = Returns ()"
  by (simp add: status_run_lifecycle implied_status_def AtenaBot_init_def start_def stop_def)

subsection \<open>The task counter\<close>

text \<open>
  C2. Take any sequence of calls on a bot (\<open>start\<close>, \<open>stop\<close>, \<open>get_uptime\<close>, \<open>get_status\<close>,
  \<open>analyze_project\<close>, \<open>get_error_help\<close>, rounds of the heartbeat loop, in any order) in which
  every call returns or raises. Afterwards \<open>task_count\<close> is its value before plus the
  number of \<open>analyze_project\<close> and \<open>get_error_help\<close> calls in the sequence: each of those
  adds exactly one, whether its collaborator returned or raised, and no other call
  changes the counter.
\<close>

theorem task_count_after_calls:
  "\<forall>c\<in>set cs. returns_or_raises c \<Longrightarrow>
     task_count (fst (run_calls ev b cs)) = task_count b + int (length (filter is_task cs))"
proof (induction cs arbitrary: b)
  case Nil
  show ?case by simp
next
  case (Cons c cs)
  obtain b' es bk where p: "perform ev b c = (b', es, bk)"
    by (cases "perform ev b c") auto
  from Cons.prems have rc: "returns_or_raises c" and rest: "\<forall>c\<in>set cs. returns_or_raises c"
    by simp_all
  from perform_task_count [OF rc p]
  have bk and tc: "task_count b' = task_count b + (if is_task c then 1 else 0)"
    by simp_all
  from Cons.IH [OF rest, of b'] p \<open>bk\<close> tc show ?case
    by (simp add: case_prod_unfold)
qed

theorem task_count_after_calls_witness:
  "task_count (fst (run_calls example_env AtenaBot_init
      [Lifecycle (Start 0),
       AnalyzeProject (\<lambda>p. Raises (FileNotFoundError p)) ''missing'',
       GetStatus 1 2,
       GetErrorHelp (\<lambda>m. Returns (JObject [])) (JString ''NameError''),
       HeartbeatRound 3,
       AnalyzeProject (\<lambda>p. Returns []) ''.'',
       GetUptime 4,
       Lifecycle Stop])) = 3"
  using task_count_after_calls [of
      "[Lifecycle (Start 0),
        AnalyzeProject (\<lambda>p. Raises (FileNotFoundError p)) ''missing'',
        GetStatus 1 2,
        GetErrorHelp (\<lambda>m. Returns (JObject [])) (JString ''NameError''),
        HeartbeatRound 3,
        AnalyzeProject (\<lambda>p. Returns []) ''.'',
        GetUptime 4,
        Lifecycle Stop]" example_env AtenaBot_init]
  by (simp add: AtenaBot_init_def)

subsection \<open>Uptime\<close>



section \<open>Properties of the analysis\<close>

subsection \<open>Helper lemmas\<close>

lemma sum_update:
  "distinct (map fst d) \<Longrightarrow> map_of d k = Some v \<Longrightarrow>
     sum_list (map snd (AList.update k w d)) = sum_list (map snd d) - v + (w :: int)"
proof (induction d)
  case Nil
  then show ?case by simp
next
  case (Cons a d)
  then show ?case by (cases a) (auto split: if_splits)
qed

lemma increment_present:
  assumes "distinct (map fst d)" and "k \<in> set (map fst d)"
  shows "\<exists>d'. increment d k = Returns d' \<and> map fst d' = map fst d
           \<and> sum_list (map snd d') = sum_list (map snd d) + 1"
proof -
  from assms(2) obtain v where v: "map_of d k = Some v"
    by (metis map_of_eq_None_iff not_Some_eq set_map)
  from v have "increment d k = Returns (AList.update k (v + 1) d)"
    by (simp add: increment_def)
  moreover from assms(2) have "map fst (AList.update k (v + 1) d) = map fst d"
    by (simp add: update_keys)
  moreover from sum_update [OF assms(1) v]
  have "sum_list (map snd (AList.update k (v + 1) d)) = sum_list (map snd d) + 1"
    by simp
  ultimately show ?thesis by simp
qed

lemma increment_absent:
  "k \<notin> set (map fst d) \<Longrightarrow> increment d k = Raises (KeyError k)"
proof -
  assume "k \<notin> set (map fst d)"
  then have "map_of d k = None"
    by (simp add: map_of_eq_None_iff)
  then show ?thesis by (simp add: increment_def)
qed

lemma count_issues_known:
  "distinct (map fst d) \<Longrightarrow> \<forall>i\<in>set xs. severity i \<in> set (map fst d) \<Longrightarrow>
     \<exists>d'. count_issues d xs = Returns d' \<and> map fst d' = map fst d
        \<and> sum_list (map snd d') = sum_list (map snd d) + int (length xs)"
proof (induction xs arbitrary: d)
  case Nil
  show ?case by simp
next
  case (Cons i xs)
  from Cons.prems have "severity i \<in> set (map fst d)" by simp
  from increment_present [OF Cons.prems(1) this]
  obtain d1 where d1: "increment d (severity i) = Returns d1" "map fst d1 = map fst d"
      "sum_list (map snd d1) = sum_list (map snd d) + 1"
    by blast
  from Cons.prems d1 have "distinct (map fst d1)" "\<forall>i\<in>set xs. severity i \<in> set (map fst d1)"
    by simp_all
  from Cons.IH [OF this] d1 show ?case by auto
qed

lemma count_issues_unknown:
  "distinct (map fst d) \<Longrightarrow> \<exists>i\<in>set xs. severity i \<notin> set (map fst d) \<Longrightarrow>
     \<exists>k. count_issues d xs = Raises (KeyError k) \<and> k \<notin> set (map fst d)"
proof (induction xs arbitrary: d)
  case Nil
  then show ?case by simp
next
  case (Cons i xs)
  show ?case
  proof (cases "severity i \<in> set (map fst d)")
    case False
    then show ?thesis by (auto simp: increment_absent)
  next
    case True
    from increment_present [OF Cons.prems(1) True]
    obtain d1 where d1: "increment d (severity i) = Returns d1" "map fst d1 = map fst d"
      by blast
    from Cons.prems True d1
    have "distinct (map fst d1)" "\<exists>i\<in>set xs. severity i \<notin> set (map fst d1)"
      by auto
    from Cons.IH [OF this] d1 show ?thesis by auto
  qed
qed

lemma count_results_known:
  "distinct (map fst d) \<Longrightarrow> \<forall>r\<in>set rs. \<forall>i\<in>set (issues r). severity i \<in> set (map fst d) \<Longrightarrow>
     \<exists>d'. count_results d rs = Returns d' \<and> map fst d' = map fst d
        \<and> sum_list (map snd d') =
            sum_list (map snd d) + sum_list (map (\<lambda>r. int (length (issues r))) rs)"
proof (induction rs arbitrary: d)
  case Nil
  show ?case by simp
next
  case (Cons r rs)
  from Cons.prems have "\<forall>i\<in>set (issues r). severity i \<in> set (map fst d)" by simp
  from count_issues_known [OF Cons.prems(1) this]
  obtain d1 where d1: "count_issues d (issues r) = Returns d1" "map fst d1 = map fst d"
      "sum_list (map snd d1) = sum_list (map snd d) + int (length (issues r))"
    by blast
  from Cons.prems d1
  have "distinct (map fst d1)" "\<forall>r\<in>set rs. \<forall>i\<in>set (issues r). severity i \<in> set (map fst d1)"
    by simp_all
  from Cons.IH [OF this] d1 show ?case by auto
qed

lemma count_results_unknown:
  "distinct (map fst d) \<Longrightarrow> \<exists>r\<in>set rs. \<exists>i\<in>set (issues r). severity i \<notin> set (map fst d) \<Longrightarrow>
     \<exists>k. count_results d rs = Raises (KeyError k) \<and> k \<notin> set (map fst d)"
proof (induction rs arbitrary: d)
  case Nil
  then show ?case by simp
next
  case (Cons r rs)
  show ?case
  proof (cases "\<forall>i\<in>set (issues r). severity i \<in> set (map fst d)")
    case False
    then have "\<exists>i\<in>set (issues r). severity i \<notin> set (map fst d)" by simp
    from count_issues_unknown [OF Cons.prems(1) this] show ?thesis by auto
  next
    case True
    from count_issues_known [OF Cons.prems(1) True]
    obtain d1 where d1: "count_issues d (issues r) = Returns d1" "map fst d1 = map fst d"
      by blast
    from Cons.prems True d1
    have "distinct (map fst d1)"
      "\<exists>r\<in>set rs. \<exists>i\<in>set (issues r). severity i \<notin> set (map fst d1)"
      by auto
    from Cons.IH [OF this] d1 show ?thesis by auto
  qed
qed

subsection \<open>A collaborator that raises\<close>

text \<open>
  C9. \<open>analyze_project\<close> adds one to \<open>task_count\<close> and writes the \<open>STARTED\<close> record before it
  calls the analysis collaborator. When that call raises, the exception reaches the
  caller; the bot keeps the incremented counter, what has happened is the \<open>STARTED\<close>
  record followed by the call into the collaborator, no \<open>COMPLETED\<close> record is written and
  no summary is returned.
\<close>

theorem analyze_project_collaborator_raises:
  "analyzer p = Raises e \<Longrightarrow>
     analyze_project analyzer b p =
       (b\<lparr>task_count := task_count b + 1\<rparr>,
        [LogOperation ''analyze_project'' ''STARTED'' p, AnalyzePath p],
        Raises e)"
  by (simp add: analyze_project_def log_operation_def)

theorem analyze_project_collaborator_raises_witness:
  "analyze_project (\<lambda>p. Raises (FileNotFoundError p)) AtenaBot_init ''/nowhere'' =
     (AtenaBot_init\<lparr>task_count := 1\<rparr>,
      [LogOperation ''analyze_project'' ''STARTED'' ''/nowhere'', AnalyzePath ''/nowhere''],
      Raises (FileNotFoundError ''/nowhere''))"
  using analyze_project_collaborator_raises
    [of "\<lambda>p. Raises (FileNotFoundError p)" "''/nowhere''" "FileNotFoundError ''/nowhere''"
        AtenaBot_init]
  by (simp add: AtenaBot_init_def)

subsection \<open>The summary\<close>

text \<open>
  C10. Let the analysis collaborator return its per-file results. If every issue's
  severity is \<open>HIGH\<close>, \<open>MEDIUM\<close> or \<open>LOW\<close>, \<open>analyze_project\<close> returns a summary in which
  \<open>files_analyzed\<close> is the number of results, \<open>total_issues\<close> the number of issues over all
  results, the keys of \<open>issues_by_severity\<close> are exactly \<open>HIGH\<close>, \<open>MEDIUM\<close>, \<open>LOW\<close>, and its
  values add up to \<open>total_issues\<close>. If some issue has another severity, the loop raises
  \<open>KeyError\<close> for a key outside the three and no summary is returned.
\<close>

theorem analyze_project_summary:
  "analyzer p = Returns results \<Longrightarrow>
     ((\<forall>r\<in>set results. \<forall>i\<in>set (issues r). severity i \<in> {''HIGH'', ''MEDIUM'', ''LOW''}) \<longrightarrow>
        (\<exists>s. snd (snd (analyze_project analyzer b p)) = Returns s
           \<and> files_analyzed s = int (length results)
           \<and> total_issues s = int (length (concat (map issues results)))
           \<and> map fst (issues_by_severity s) = [''HIGH'', ''MEDIUM'', ''LOW'']
           \<and> sum_list (map snd (issues_by_severity s)) = total_issues s))
     \<and> ((\<exists>r\<in>set results. \<exists>i\<in>set (issues r). severity i \<notin> {''HIGH'', ''MEDIUM'', ''LOW''}) \<longrightarrow>
          (\<exists>k. snd (snd (analyze_project analyzer b p)) = Raises (KeyError k)
             \<and> k \<notin> {''HIGH'', ''MEDIUM'', ''LOW''}))"
proof (intro conjI impI)
  let ?d = "[(''HIGH'', 0 :: int), (''MEDIUM'', 0), (''LOW'', 0)]"
  have dist: "distinct (map fst ?d)" by simp
  have total: "sum_list (map (\<lambda>r. int (length (issues r))) results)
                 = int (length (concat (map issues results)))"
    by (induction results) simp_all
  assume ret: "analyzer p = Returns results"
  {
    assume "\<forall>r\<in>set results. \<forall>i\<in>set (issues r). severity i \<in> {''HIGH'', ''MEDIUM'', ''LOW''}"
    then have "\<forall>r\<in>set results. \<forall>i\<in>set (issues r). severity i \<in> set (map fst ?d)"
      by simp
    from count_results_known [OF dist this]
    obtain d' where d': "count_results ?d results = Returns d'" "map fst d' = map fst ?d"
        "sum_list (map snd d') = sum_list (map (\<lambda>r. int (length (issues r))) results)"
      by auto
    with ret total
    show "\<exists>s. snd (snd (analyze_project analyzer b p)) = Returns s
           \<and> files_analyzed s = int (length results)
           \<and> total_issues s = int (length (concat (map issues results)))
           \<and> map fst (issues_by_severity s) = [''HIGH'', ''MEDIUM'', ''LOW'']
           \<and> sum_list (map snd (issues_by_severity s)) = total_issues s"
      by (simp add: analyze_project_def Let_def)
  }
  {
    assume "\<exists>r\<in>set results. \<exists>i\<in>set (issues r). severity i \<notin> {''HIGH'', ''MEDIUM'', ''LOW''}"
    then have "\<exists>r\<in>set results. \<exists>i\<in>set (issues r). severity i \<notin> set (map fst ?d)"
      by simp
    from count_results_unknown [OF dist this]
    obtain k where "count_results ?d results = Raises (KeyError k)" "k \<notin> set (map fst ?d)"
      by blast
    with ret
    show "\<exists>k. snd (snd (analyze_project analyzer b p)) = Raises (KeyError k)
             \<and> k \<notin> {''HIGH'', ''MEDIUM'', ''LOW''}"
      by (simp add: analyze_project_def Let_def)
  }
qed

theorem analyze_project_summary_witness:
  "(\<exists>s. snd (snd (analyze_project
            (\<lambda>p. Returns (results_with [[''HIGH'', ''LOW''], [], [''LOW'']])) AtenaBot_init ''.''))
           = Returns s
        \<and> files_analyzed s = 3 \<and> total_issues s = 3
        \<and> map fst (issues_by_severity s) = [''HIGH'', ''MEDIUM'', ''LOW'']
        \<and> sum_list (map snd (issues_by_severity s)) = total_issues s)
   \<and> (\<exists>k. snd (snd (analyze_project
              (\<lambda>p. Returns (results_with [[''HIGH''], [''CRITICAL'']])) AtenaBot_init ''.''))
             = Raises (KeyError k)
          \<and> k \<notin> {''HIGH'', ''MEDIUM'', ''LOW''})"
proof -
  let ?good = "results_with [[''HIGH'', ''LOW''], [], [''LOW'']]"
  let ?bad = "results_with [[''HIGH''], [''CRITICAL'']]"
  have good: "\<forall>r\<in>set ?good. \<forall>i\<in>set (issues r). severity i \<in> {''HIGH'', ''MEDIUM'', ''LOW''}"
    by (simp add: results_with_def)
  have bad: "\<exists>r\<in>set ?bad. \<exists>i\<in>set (issues r). severity i \<notin> {''HIGH'', ''MEDIUM'', ''LOW''}"
    by (simp add: results_with_def)
  have sizes: "int (length ?good) = 3" "int (length (concat (map issues ?good))) = 3"
    by (simp_all add: results_with_def)
  from analyze_project_summary [of "\<lambda>p. Returns ?good" "''.''" ?good AtenaBot_init] good sizes
  have "\<exists>s. snd (snd (analyze_project (\<lambda>p. Returns ?good) AtenaBot_init ''.'')) = Returns s
        \<and> files_analyzed s = 3 \<and> total_issues s = 3
        \<and> map fst (issues_by_severity s) = [''HIGH'', ''MEDIUM'', ''LOW'']
        \<and> sum_list (map snd (issues_by_severity s)) = total_issues s"
    by simp
  moreover
  from analyze_project_summary [of "\<lambda>p. Returns ?bad" "''.''" ?bad AtenaBot_init] bad
  have "\<exists>k. snd (snd (analyze_project (\<lambda>p. Returns ?bad) AtenaBot_init ''.''))
             = Raises (KeyError k)
          \<and> k \<notin> {''HIGH'', ''MEDIUM'', ''LOW''}"
    by blast
  ultimately show ?thesis by blast
qed

section \<open>Properties of the HTTP handler\<close>

subsection \<open>Helper lemmas\<close>

lemma split_newline_not_empty: "split_newline s \<noteq> []"
  by (induction s) simp_all

lemma split_newline_line:
  "CHR 0x0A \<notin> set l \<Longrightarrow> split_newline (l @ CHR 0x0A # s) = l # split_newline s"
  by (induction l) (auto simp: split_newline_not_empty)

lemma split_newline_terminated:
  "\<forall>l\<in>set ls. CHR 0x0A \<notin> set l \<Longrightarrow> split_newline (newline_terminated ls) = ls @ [[]]"
  by (induction ls) (simp_all add: newline_terminated_def split_newline_line)

lemma digit_not_newline: "d < 10 \<Longrightarrow> digit d \<noteq> CHR 0x0A"
proof -
  assume "d < 10"
  then have "d \<in> {0, 1, 2, 3, 4, 5, 6, 7, 8, 9}" by auto
  then show ?thesis by (auto simp: digit_def)
qed

lemma str_nat_no_newline: "CHR 0x0A \<notin> set (str_nat n)"
proof (induction n rule: str_nat.induct)
  case (1 n)
  show ?case
  proof (cases "n < 10")
    case True
    then show ?thesis
      using digit_not_newline [of n] by (subst str_nat.simps) auto
  next
    case False
    with 1 show ?thesis
      using digit_not_newline [of "n mod 10"] by (subst str_nat.simps) auto
  qed
qed

lemma numbered_lines_no_newline: "\<forall>l\<in>set (numbered_lines n). CHR 0x0A \<notin> set l"
  by (auto simp: numbered_lines_def str_nat_no_newline)

lemma last_50_terminated:
  "\<forall>l\<in>set ls. CHR 0x0A \<notin> set l \<Longrightarrow> 49 \<le> length ls \<Longrightarrow>
     last_50 (split_newline (newline_terminated ls)) = drop (length ls - 49) ls @ [[]]"
  by (simp add: split_newline_terminated last_50_def)

subsection \<open>POST /error-help\<close>

text \<open>What the handler does with a body that is not JSON, and with one that is a JSON
  object: the two cases in which it answers as the route's contract says.\<close>

lemma error_help_malformed:
  "0 < content_length h \<Longrightarrow> take (nat (content_length h)) (rfile h) \<noteq> [] \<Longrightarrow>
   json_loads (take (nat (content_length h)) (rfile h)) = None \<Longrightarrow>
     do_POST json_loads analyzer doc_assistant b h
       = (b, [], Returns (send_json (JObject [(''error'', JString ''Invalid JSON'')]) 400))"
  by (simp add: do_POST_def)

lemma error_help_object:
  "0 < content_length h \<Longrightarrow> take (nat (content_length h)) (rfile h) \<noteq> [] \<Longrightarrow>
   json_loads (take (nat (content_length h)) (rfile h)) = Some (JObject kvs) \<Longrightarrow>
   path h = ''/error-help'' \<Longrightarrow>
     do_POST json_loads analyzer doc_assistant b h =
       (case map_of kvs ''error'' of
          None \<Rightarrow> (b, [], Returns (send_json
                    (JObject [(''error'', JString (''Missing '' @ repr ''error'' @ '' field''))]) 400))
        | Some v \<Rightarrow>
            if truthy v then reply (\<lambda>v. v) (get_error_help doc_assistant b v)
            else (b, [], Returns (send_json
                    (JObject [(''error'', JString (''Missing '' @ repr ''error'' @ '' field''))]) 400)))"
  by (simp add: do_POST_def split: option.splits)

text \<open>
  C6. The contract of \<open>POST /error-help\<close>: status 400 exactly for a body that is not JSON or
  whose parsed value has no non-empty \<open>error\<close> field, otherwise the payload of
  \<open>get_error_help\<close> with status 200. The body \<open>[]\<close> is JSON and has no \<open>error\<close> field; on it
  the handler sends nothing: \<open>data.get\<close> raises \<open>AttributeError\<close>, since the parsed value is
  a list, and the exception leaves \<open>do_POST\<close>. (The parser is any parser that reads \<open>[]\<close>
  as the empty list.)
\<close>

theorem error_help_list_body:
  "do_POST (json_loads(''[]'' := Some (JArray []))) analyzer doc_assistant b
       \<lparr>path = ''/error-help'', content_length = 2, rfile = ''[]''\<rparr>
     = (b, [], Raises (AttributeError (repr ''list'' @ '' object has no attribute '' @ repr ''get'')))"
  by (simp add: do_POST_def)

subsection \<open>GET /logs\<close>

text \<open>Without a log file the answer is the empty list, with status 200.\<close>

lemma logs_absent:
  "do_GET ev analyzer None now1 now2 b \<lparr>path = ''/logs'', content_length = n, rfile = s\<rparr>
     = (b, [], Returns (send_json (JObject [(''logs'', JArray [])]) 200))"
  by (simp add: do_GET_def)

text \<open>
  C8. \<open>GET /logs\<close> on a log file of 100 records, each followed by its newline: the answer
  has status 200 and holds records 52 to 100 followed by an empty string, that is 49 of
  the file's lines; record 51 is not among them. (\<open>split("\n")\<close> yields an empty last piece
  after the final newline, and \<open>[-50:]\<close> counts it.)
\<close>

theorem logs_of_hundred_lines:
  "do_GET ev analyzer (Some (newline_terminated (numbered_lines 100))) now1 now2 b
       \<lparr>path = ''/logs'', content_length = 0, rfile = []\<rparr>
     = (b, [], Returns (send_json
          (JObject [(''logs'', JArray (map JString (drop 51 (numbered_lines 100) @ [[]])))]) 200))
   \<and> length (drop 51 (numbered_lines 100)) = 49"
proof -
  have "length (numbered_lines 100) = 100" by (simp add: numbered_lines_def)
  with last_50_terminated [OF numbered_lines_no_newline, of 100]
  have "last_50 (split_newline (newline_terminated (numbered_lines 100)))
          = drop 51 (numbered_lines 100) @ [[]]"
    by simp
  then show ?thesis by (simp add: do_GET_def numbered_lines_def)
qed

section \<open>Properties of the command layer\<close>

subsection \<open>Helper lemmas\<close>






subsection \<open>Timeout\<close>



subsection \<open>Completion and failure\<close>




subsection \<open>Installing the dependencies\<close>



end
